theory Spec2Isabelle
  imports Main "HOL-Library.AList"
begin

section \<open>The user controller (backend/controller/user.js)\<close>

text \<open>
  The route handlers of \<^verbatim>\<open>backend/controller/user.js\<close> as functions from the state of
  the application (the two document collections and the upload directory) and a request
  to the new state and the response.

  Conventions of the embedding:
  \<^item> a field of a request body is a \<open>string option\<close>: \<open>None\<close> is JavaScript's
    \<open>undefined\<close> (the field is absent), and the falsy strings are \<open>None\<close> and the
    empty string;
  \<^item> an ObjectId is its lower-case text of 24 hexadecimal digits, which is what
    \<open>toString()\<close> gives; a text of a request is cast before it is looked up: the 24
    digits in either case are the id, and any other text makes \<open>findById\<close> throw a
    CastError, which the handler's \<open>catch\<close> block answers; an id held by a document
    (\<open>referredBy\<close>) is an object, truthy whenever it is not null;
  \<^item> \<open>===\<close> between an ObjectId and a string of a request is false (an object is
    never strictly equal to a primitive);
  \<^item> a collection is the list of its documents in insertion order; \<open>findOne\<close> and
    \<open>Array.prototype.find\<close> return the first match (\<open>List.find\<close>);
  \<^item> the collections do not fail otherwise: besides the CastError, a handler's
    \<open>catch\<close> block is entered by the TypeError the handler's own body raises on a
    null document, and by a document that \<open>User.create\<close> rejects;
  \<^item> \<open>user.save()\<close> stores the document as the handler assigned it (a new password
    goes through the hashing of the persistence layer); the spec names no validation on
    save. What a save makes of a password that is absent is decided by the User schema,
    which is not among the sources: the model stores it as absent and no property below
    is about that case;
  \<^item> \<open>next(new ErrorHandler(message, statusCode))\<close> is the response
    \<open>ErrorHandler message statusCode\<close>, the status code being optional as in the
    source;
  \<^item> \<open>path.join\<close> of the single filename multer chose is that filename.
\<close>

subsection \<open>Documents\<close>

type_synonym object_id = string

text \<open>The object of a request body: its own properties in order, each a string;
  \<open>map_of\<close> reads one, and a property that is not there is undefined.\<close>

type_synonym json_object = "(string \<times> string) list"

text \<open>
  Modelled from the spec: the address subdocument of the User schema (not among the
  sources): an id, which Mongoose gives every subdocument as an ObjectId, and the
  address's own properties (\<open>addressType\<close> and the free-form fields).
\<close>

record address =
  addr_id :: object_id
  props :: json_object

text \<open>
  Modelled from the spec: the User schema (\<^verbatim>\<open>model/user\<close>) is not among the sources; the
  fields are those of the spec's data model and of the document the registration handler
  passes to \<open>User.create\<close>. \<open>uid\<close> is the document's \<open>_id\<close>, \<open>password\<close> the stored
  hash.
\<close>

record user =
  uid :: object_id
  name :: string
  email :: "string option"
  password :: "string option"
  phoneNumber :: string
  panCard :: string
  gender :: string
  avatar :: string
  addresses :: "address list"
  referralCode :: string
  referredBy :: "object_id option"

text \<open>
  Modelled from the spec: the ReferralCode schema (\<^verbatim>\<open>model/referralCode\<close>) is not among
  the sources; a document maps a code to its owning user and accumulates usage entries
  (the redeeming user's id and name).
\<close>

record referral_doc =
  code :: string
  userId :: object_id
  userName :: string
  usedBy :: "(object_id \<times> string option) list"

text \<open>What \<open>verifyReferralCode\<close> resolves a code to (the handler reads these three fields;
  \<open>referrerCode\<close> is the source's \<open>referrerDetails.referralCode\<close>).\<close>

record referrer_details =
  referrerId :: object_id
  referrerName :: string
  referrerCode :: string

record state =
  users :: "user list"
  referralCodes :: "referral_doc list"
  uploads :: "string set"

subsection \<open>Requests and responses\<close>

text \<open>The body of \<open>POST /create-user\<close> and the file multer stored for it (its filename).\<close>

record create_user_req =
  body_name :: "string option"
  body_email :: "string option"
  body_password :: "string option"
  body_phoneNumber :: "string option"
  body_panCard :: "string option"
  body_gender :: "string option"
  body_inputReferralCode :: "string option"
  req_file :: "string option"

text \<open>
  \<open>SendToken user statusCode token referrer\<close> is \<open>sendToken(user, statusCode, res,
  responseData)\<close>: the token issued for the user and, at registration, the referrer's name
  and code (or null). \<open>JsonUser c u\<close> is \<open>res.status(c).json({success: true, user: u})\<close>
  and \<open>JsonMessage c m\<close> is \<open>res.status(c).json({success: true, message: m})\<close>.
\<close>

datatype response =
    ErrorHandler string "nat option"
  | SendToken user nat string "(string \<times> string) option"
  | JsonUser nat "user option"
  | JsonMessage nat string

subsection \<open>Collaborators\<close>

text \<open>
  Modelled from the spec: the referral utilities (\<^verbatim>\<open>utils/ReferralCodeGenerate\<close>), the
  methods and hooks of the User model and the token utility are not among the sources.
  Each is a parameter of the handlers, typed by what the spec says it reads and writes:
  \<^item> \<open>verifyReferralCode\<close> resolves an input code against the stores to a referrer, or
    to null;
  \<^item> \<open>generateReferralCode\<close> computes a code for a name, reading the existing codes;
  \<^item> \<open>updateReferralUsage code userId userName\<close> records a usage event on the referral
    store and touches nothing else;
  \<^item> \<open>comparePassword\<close> is the user document's method, checking a candidate against
    the stored hash;
  \<^item> \<open>hashPassword\<close> is the hashing the persistence layer performs on save;
  \<^item> \<open>getJwtToken\<close> is the token issued for a user;
  \<^item> \<open>userSchema\<close> is what \<open>User.create\<close> makes of the document passed to it (the
    schema's setters, validators, unique indexes and hooks): the document as stored, or
    the message of the error it throws.
\<close>

record collaborators =
  verifyReferralCode :: "user list \<Rightarrow> referral_doc list \<Rightarrow> string \<Rightarrow> referrer_details option"
  generateReferralCode :: "referral_doc list \<Rightarrow> string \<Rightarrow> string"
  updateReferralUsage :: "referral_doc list \<Rightarrow> string \<Rightarrow> object_id \<Rightarrow> string option \<Rightarrow> referral_doc list"
  comparePassword :: "user \<Rightarrow> string option \<Rightarrow> bool"
  hashPassword :: "string \<Rightarrow> string"
  getJwtToken :: "user \<Rightarrow> string"
  userSchema :: "user list \<Rightarrow> user \<Rightarrow> string + user"

subsection \<open>JavaScript and persistence primitives\<close>

text \<open>\<open>!x\<close> for a value that is a string or undefined.\<close>

definition falsy :: "string option \<Rightarrow> bool" where
  "falsy s = (s = None \<or> s = Some [])"

text \<open>The string a truthy value is; the handlers read it only after the truthiness check.\<close>

definition string_of :: "string option \<Rightarrow> string" where
  "string_of s = (case s of None \<Rightarrow> [] | Some t \<Rightarrow> t)"

text \<open>\<open>String.prototype.toUpperCase\<close> on the ASCII letters; other characters are kept.\<close>

definition upper_char :: "char \<Rightarrow> char" where
  "upper_char c =
     (let n = (of_char c :: nat) in if 97 \<le> n \<and> n \<le> 122 then char_of (n - 32) else c)"

definition toUpperCase :: "string \<Rightarrow> string" where
  "toUpperCase s = map upper_char s"

text \<open>\<open>fs.unlink(path, callback)\<close>: the file is gone afterwards (an error is only logged).\<close>

definition fs_unlink :: "string \<Rightarrow> state \<Rightarrow> state" where
  "fs_unlink filePath st = st\<lparr>uploads := uploads st - {filePath}\<rparr>"

text \<open>The block \<open>if (req.file) { fs.unlink(`uploads/${filename}`, ...) }\<close>.\<close>

definition discard_file :: "string option \<Rightarrow> state \<Rightarrow> state" where
  "discard_file f st =
     (case f of None \<Rightarrow> st | Some filename \<Rightarrow> fs_unlink (''uploads/'' @ filename) st)"

text \<open>The cast of a text to an ObjectId: 24 hexadecimal digits, in either case, are the
  id with those digits; no other text is an ObjectId.\<close>

definition is_hex :: "char \<Rightarrow> bool" where
  "is_hex c = (c \<in> set ''0123456789abcdefABCDEF'')"

definition lower_hex :: "char \<Rightarrow> char" where
  "lower_hex c = (case map_of (zip ''ABCDEF'' ''abcdef'') c of None \<Rightarrow> c | Some d \<Rightarrow> d)"

definition castObjectId :: "string \<Rightarrow> object_id option" where
  "castObjectId t = (if length t = 24 \<and> list_all is_hex t then Some (map lower_hex t) else None)"

text \<open>The message of the CastError thrown for a text that is no ObjectId.\<close>

definition CastError :: "string \<Rightarrow> string" where
  "CastError t = ''Cast to ObjectId failed for value '' @ t"

text \<open>\<open>User.findById(id)\<close> on a text of the request: null for an absent id; a thrown
  CastError (\<open>Inl\<close> its message) for a text that is no ObjectId; otherwise the document
  whose id the text casts to, or null.\<close>

definition findById :: "user list \<Rightarrow> string option \<Rightarrow> string + user option" where
  "findById us i =
     (case i of
        None \<Rightarrow> Inr None
      | Some t \<Rightarrow>
          (case castObjectId t of
             None \<Rightarrow> Inl (CastError t)
           | Some j \<Rightarrow> Inr (find (\<lambda>u. uid u = j) us)))"

text \<open>The values the address handler compares with \<open>===\<close>: a property of the request
  body is a string or undefined, the id of a stored subdocument is an ObjectId. Strict
  equality holds between equal primitives; an ObjectId is an object, equal only to
  itself, and never to a value parsed from a request.\<close>

datatype js_value = JUndefined | JString string | JObjectId object_id

fun strict_equals :: "js_value \<Rightarrow> js_value \<Rightarrow> bool" where
  "strict_equals JUndefined JUndefined = True"
| "strict_equals (JString a) (JString b) = (a = b)"
| "strict_equals _ _ = False"

definition js_value :: "string option \<Rightarrow> js_value" where
  "js_value v = (case v of None \<Rightarrow> JUndefined | Some s \<Rightarrow> JString s)"

text \<open>The first element that satisfies \<open>P\<close> is replaced by its image; the list is
  unchanged when there is none.\<close>

fun update_first :: "('a \<Rightarrow> bool) \<Rightarrow> ('a \<Rightarrow> 'a) \<Rightarrow> 'a list \<Rightarrow> 'a list" where
  "update_first P f [] = []"
| "update_first P f (x # xs) = (if P x then f x # xs else x # update_first P f xs)"

text \<open>\<open>user.save()\<close>: the stored document with the id of \<open>u\<close> becomes \<open>u\<close>.\<close>

definition save :: "user \<Rightarrow> user list \<Rightarrow> user list" where
  "save u us = update_first (\<lambda>x. uid x = uid u) (\<lambda>_. u) us"

text \<open>\<open>Object.assign(target, source)\<close>: every own property of the source is set on the
  target, in the source's order.\<close>

definition Object_assign :: "json_object \<Rightarrow> json_object \<Rightarrow> json_object" where
  "Object_assign target source = fold (\<lambda>(k, v). AList.update k v) source target"

text \<open>\<open>Object.assign(existsAddress, req.body)\<close> on a stored address: the body's
  properties are set on it; the body's \<open>_id\<close> is, by the test that selected the address,
  the id it has.\<close>

definition assign_address :: "address \<Rightarrow> json_object \<Rightarrow> address" where
  "assign_address a body = a\<lparr>props := Object_assign (props a) (AList.delete ''_id'' body)\<rparr>"

text \<open>\<open>user.addresses.push(req.body)\<close>: Mongoose makes the body a subdocument. Its id is
  the cast of the body's \<open>_id\<close> when the body has one (a text that is no ObjectId is a
  CastError) and a new ObjectId otherwise.\<close>

definition push_address :: "object_id \<Rightarrow> json_object \<Rightarrow> string + address" where
  "push_address newId body =
     (case map_of body ''_id'' of
        None \<Rightarrow> Inr \<lparr>addr_id = newId, props = body\<rparr>
      | Some t \<Rightarrow>
          (case castObjectId t of
             None \<Rightarrow> Inl (CastError t)
           | Some i \<Rightarrow> Inr \<lparr>addr_id = i, props = AList.delete ''_id'' body\<rparr>))"

text \<open>The text a template literal gives a value that is a string or undefined.\<close>

definition template :: "string option \<Rightarrow> string" where
  "template v = (case v of None \<Rightarrow> ''undefined'' | Some s \<Rightarrow> s)"

subsection \<open>POST /create-user\<close>

text \<open>
  \<open>User.create\<close> stores what the schema makes of the document under a new id, or throws.
  \<open>ReferralCode.create\<close> appends the new code's document.
\<close>

definition User_create :: "collaborators \<Rightarrow> object_id \<Rightarrow> user list \<Rightarrow> user \<Rightarrow> string + user" where
  "User_create env newId us doc =
     (case userSchema env us doc of
        Inl message \<Rightarrow> Inl message
      | Inr stored \<Rightarrow> Inr (stored\<lparr>uid := newId\<rparr>))"

definition create_user ::
  "collaborators \<Rightarrow> object_id \<Rightarrow> state \<Rightarrow> create_user_req \<Rightarrow> state \<times> response" where
  "create_user env newId st req =
     (if falsy (body_name req) \<or> falsy (body_password req) \<or> falsy (body_phoneNumber req)
         \<or> falsy (body_panCard req) \<or> falsy (body_gender req)
      then (discard_file (req_file req) st,
            ErrorHandler ''Please provide all required fields!'' (Some 400))
      else
        let referrerDetails =
              (if falsy (body_inputReferralCode req) then None
               else verifyReferralCode env (users st) (referralCodes st)
                      (string_of (body_inputReferralCode req)))
        in
        if \<not> falsy (body_inputReferralCode req) \<and> referrerDetails = None
        then (st, ErrorHandler ''Invalid referral code!'' (Some 400))
        else
          let newUserReferralCode =
                generateReferralCode env (referralCodes st) (string_of (body_name req))
          in
          if \<not> falsy (body_email req)
             \<and> find (\<lambda>u. email u = body_email req) (users st) \<noteq> None
          then (discard_file (req_file req) st, ErrorHandler ''Email already exists'' (Some 400))
          else if find (\<lambda>u. panCard u = toUpperCase (string_of (body_panCard req))) (users st)
                  \<noteq> None
          then (discard_file (req_file req) st,
                ErrorHandler ''PAN card already registered'' (Some 400))
          else
            let fileUrl = (case req_file req of None \<Rightarrow> ''defaultAvatar.png'' | Some f \<Rightarrow> f) in
            case User_create env newId (users st)
                   \<lparr>uid = newId,
                    name = string_of (body_name req),
                    email = body_email req,
                    password = body_password req,
                    phoneNumber = string_of (body_phoneNumber req),
                    panCard = string_of (body_panCard req),
                    gender = string_of (body_gender req),
                    avatar = fileUrl,
                    addresses = [],
                    referralCode = newUserReferralCode,
                    referredBy = map_option referrerId referrerDetails\<rparr> of
              Inl message \<Rightarrow>
                (discard_file (req_file req) st, ErrorHandler message (Some 400))
            | Inr usr \<Rightarrow>
                let created =
                      referralCodes st @
                        [\<lparr>code = newUserReferralCode, userId = uid usr, userName = name usr,
                          usedBy = []\<rparr>];
                    recorded =
                      (case referrerDetails of
                         None \<Rightarrow> created
                       | Some d \<Rightarrow>
                           updateReferralUsage env created
                             (string_of (body_inputReferralCode req)) (uid usr) (Some (name usr)))
                in (st\<lparr>users := users st @ [usr], referralCodes := recorded\<rparr>,
                    SendToken usr 201 (getJwtToken env usr)
                      (map_option (\<lambda>d. (referrerName d, referrerCode d)) referrerDetails)))"

subsection \<open>POST /login-user\<close>

definition login_user ::
  "collaborators \<Rightarrow> state \<Rightarrow> string option \<Rightarrow> string option \<Rightarrow> state \<times> response" where
  "login_user env st email' password' =
     (if falsy email' \<or> falsy password'
      then (st, ErrorHandler ''Please provide the all fields!'' (Some 400))
      else
        case find (\<lambda>u. email u = email') (users st) of
          None \<Rightarrow> (st, ErrorHandler ''User doesn't exists!'' (Some 400))
        | Some usr \<Rightarrow>
            if \<not> comparePassword env usr password'
            then (st, ErrorHandler ''Please provide the correct information'' (Some 400))
            else (st, SendToken usr 201 (getJwtToken env usr) None))"

subsection \<open>PUT /update-user-addresses\<close>

text \<open>\<open>authId\<close> is \<open>req.user.id\<close>, set by the authentication middleware; \<open>newId\<close> is
  the ObjectId Mongoose generates for a pushed address that brings none.\<close>

definition update_user_addresses ::
  "state \<Rightarrow> object_id \<Rightarrow> string \<Rightarrow> json_object \<Rightarrow> state \<times> response" where
  "update_user_addresses st newId authId body =
     (case findById (users st) (Some authId) of
        Inl message \<Rightarrow> (st, ErrorHandler message (Some 500))
      | Inr None \<Rightarrow>
          (st, ErrorHandler ''Cannot read properties of null (reading 'addresses')'' (Some 500))
      | Inr (Some usr) \<Rightarrow>
          if find (\<lambda>a. strict_equals (js_value (map_of (props a) ''addressType''))
                         (js_value (map_of body ''addressType'')))
               (addresses usr) \<noteq> None
          then (st, ErrorHandler (template (map_of body ''addressType'') @ '' address already exists'')
                      None)
          else if find (\<lambda>a. strict_equals (JObjectId (addr_id a)) (js_value (map_of body ''_id'')))
                    (addresses usr) \<noteq> None
          then
            let usr' = usr\<lparr>addresses :=
                             update_first
                               (\<lambda>a. strict_equals (JObjectId (addr_id a))
                                      (js_value (map_of body ''_id'')))
                               (\<lambda>a. assign_address a body) (addresses usr)\<rparr>
            in (st\<lparr>users := save usr' (users st)\<rparr>, JsonUser 200 (Some usr'))
          else
            (case push_address newId body of
               Inl message \<Rightarrow> (st, ErrorHandler message (Some 500))
             | Inr a \<Rightarrow>
                 let usr' = usr\<lparr>addresses := addresses usr @ [a]\<rparr>
                 in (st\<lparr>users := save usr' (users st)\<rparr>, JsonUser 200 (Some usr'))))"

subsection \<open>PUT /update-user-password\<close>

definition update_user_password ::
  "collaborators \<Rightarrow> state \<Rightarrow> string \<Rightarrow> string option \<Rightarrow> string option \<Rightarrow> string option
     \<Rightarrow> state \<times> response" where
  "update_user_password env st authId oldPassword newPassword confirmPassword =
     (case findById (users st) (Some authId) of
        Inl message \<Rightarrow> (st, ErrorHandler message (Some 500))
      | Inr None \<Rightarrow>
          (st, ErrorHandler ''Cannot read properties of null (reading 'comparePassword')''
                 (Some 500))
      | Inr (Some usr) \<Rightarrow>
          if \<not> comparePassword env usr oldPassword
          then (st, ErrorHandler ''Old password is incorrect!'' (Some 400))
          else if newPassword \<noteq> confirmPassword
          then (st, ErrorHandler ''Password doesn't matched with each other!'' (Some 400))
          else (st\<lparr>users :=
                      save (usr\<lparr>password := map_option (hashPassword env) newPassword\<rparr>) (users st)\<rparr>,
                JsonMessage 200 ''Password updated successfully!''))"

subsection \<open>GET /user-info/:id\<close>

text \<open>\<open>i\<close> is \<open>req.params.id\<close>, any text. The \<open>catch\<close> block answers the CastError of
  a text that is no ObjectId.\<close>

definition user_info :: "state \<Rightarrow> string \<Rightarrow> state \<times> response" where
  "user_info st i =
     (case findById (users st) (Some i) of
        Inl message \<Rightarrow> (st, ErrorHandler message (Some 500))
      | Inr usr \<Rightarrow> (st, JsonUser 201 usr))"

subsection \<open>POST /apply-referral\<close>

definition apply_referral ::
  "collaborators \<Rightarrow> state \<Rightarrow> string option \<Rightarrow> string option \<Rightarrow> state \<times> response" where
  "apply_referral env st referralCode' userId' =
     (case find (\<lambda>r. Some (code r) = referralCode') (referralCodes st) of
        None \<Rightarrow> (st, ErrorHandler ''Invalid referral code'' (Some 400))
      | Some referral \<Rightarrow>
          if Some (userId referral) = userId'
          then (st, ErrorHandler ''Cannot use your own referral code'' (Some 400))
          else
            (case findById (users st) userId' of
               Inl message \<Rightarrow> (st, ErrorHandler message (Some 500))
             | Inr None \<Rightarrow> (st, ErrorHandler ''User not found'' (Some 400))
             | Inr (Some usr) \<Rightarrow>
                 if referredBy usr \<noteq> None
                 then (st, ErrorHandler ''You have already used a referral code'' (Some 400))
                 else
                   (st\<lparr>users := save (usr\<lparr>referredBy := Some (userId referral)\<rparr>) (users st),
                       referralCodes :=
                         updateReferralUsage env (referralCodes st) (string_of referralCode')
                           (string_of userId') None\<rparr>,
                    JsonMessage 200 ''Referral code applied successfully'')))"

subsection \<open>Sequences of registrations and referral applications\<close>

datatype request =
    CreateUser object_id create_user_req
  | ApplyReferral "string option" "string option"

fun serve :: "collaborators \<Rightarrow> state \<Rightarrow> request \<Rightarrow> state" where
  "serve env st (CreateUser newId req) = fst (create_user env newId st req)"
| "serve env st (ApplyReferral referralCode' userId') =
     fst (apply_referral env st referralCode' userId')"

fun run :: "collaborators \<Rightarrow> state \<Rightarrow> request list \<Rightarrow> state" where
  "run env st [] = st"
| "run env st (r # rs) = run env (serve env st r) rs"

subsection \<open>An instance of the collaborators, and a store to run the handlers on\<close>

text \<open>
  One implementation of the collaborators, to run the handlers on concrete requests. The
  utilities are not among the sources; each definition follows what the spec says of it.
\<close>

text \<open>Modelled from the spec: \<open>verifyReferralCode\<close> (absent utility) resolves an input code
  against the store to an existing referrer: the user that owns the code's document.\<close>

definition verifyReferralCode_spec ::
  "user list \<Rightarrow> referral_doc list \<Rightarrow> string \<Rightarrow> referrer_details option" where
  "verifyReferralCode_spec us rs c =
     (case find (\<lambda>r. code r = c) rs of
        None \<Rightarrow> None
      | Some r \<Rightarrow>
          (case find (\<lambda>u. uid u = userId r) us of
             None \<Rightarrow> None
           | Some u \<Rightarrow> Some \<lparr>referrerId = uid u, referrerName = name u, referrerCode = code r\<rparr>))"

text \<open>Modelled from the spec: \<open>generateReferralCode\<close> (absent utility) gives a code that no
  existing document has: the upper-cased name, padded to be longer than every code issued
  so far.\<close>

definition generateReferralCode_spec :: "referral_doc list \<Rightarrow> string \<Rightarrow> string" where
  "generateReferralCode_spec rs n =
     toUpperCase n @ replicate (Suc (foldr (\<lambda>r m. max (length (code r)) m) rs 0)) (CHR ''0'')"

text \<open>Modelled from the spec: \<open>updateReferralUsage\<close> (absent utility) records a usage event
  against the code: the redeeming user is appended to the entries of the code's document.\<close>

definition updateReferralUsage_spec ::
  "referral_doc list \<Rightarrow> string \<Rightarrow> object_id \<Rightarrow> string option \<Rightarrow> referral_doc list" where
  "updateReferralUsage_spec rs c u n =
     map (\<lambda>r. if code r = c then r\<lparr>usedBy := usedBy r @ [(u, n)]\<rparr> else r) rs"

text \<open>Modelled from the spec: the hashing the persistence layer performs on save (absent
  hook of the User model); a stand-in that keeps hashes apart from passwords.\<close>

definition hashPassword_spec :: "string \<Rightarrow> string" where
  "hashPassword_spec p = CHR ''#'' # p"

text \<open>Modelled from the spec: \<open>comparePassword\<close> (absent method of the User model) checks a
  candidate against the stored hash; an absent candidate does not match.\<close>

definition comparePassword_spec :: "user \<Rightarrow> string option \<Rightarrow> bool" where
  "comparePassword_spec u candidate =
     (case candidate of
        None \<Rightarrow> False
      | Some p \<Rightarrow> password u = Some (hashPassword_spec p))"

text \<open>Modelled from the spec: the User schema (absent) as the spec's data model has it: the
  password is stored hashed, the PAN card upper-cased, and a PAN card that is stored
  already is rejected by its unique index.\<close>

definition userSchema_spec :: "user list \<Rightarrow> user \<Rightarrow> string + user" where
  "userSchema_spec us doc =
     (if find (\<lambda>u. panCard u = toUpperCase (panCard doc)) us \<noteq> None
      then Inl ''E11000 duplicate key error''
      else Inr (doc\<lparr>password := map_option hashPassword_spec (password doc),
                    panCard := toUpperCase (panCard doc)\<rparr>))"

definition reference_collaborators :: collaborators where
  "reference_collaborators =
     \<lparr>verifyReferralCode = verifyReferralCode_spec,
      generateReferralCode = generateReferralCode_spec,
      updateReferralUsage = updateReferralUsage_spec,
      comparePassword = comparePassword_spec,
      hashPassword = hashPassword_spec,
      getJwtToken = (\<lambda>u. ''jwt:'' @ uid u),
      userSchema = userSchema_spec\<rparr>"

text \<open>Two registered users; Bob registered with Alice's code. Three uploaded files.\<close>

definition alice :: user where
  "alice =
     \<lparr>uid = ''64b7f0c2a1d3e4f5a6b7c8d1'', name = ''Alice'', email = Some ''alice@example.com'',
      password = Some ''#secret'', phoneNumber = ''100'', panCard = ''ABCDE1234F'',
      gender = ''F'', avatar = ''defaultAvatar.png'',
      addresses =
        [\<lparr>addr_id = ''64b7f0c2a1d3e4f5a6b7c9a1'',
          props = [(''addressType'', ''Home''), (''city'', ''Pune'')]\<rparr>],
      referralCode = ''ALICE0'', referredBy = None\<rparr>"

definition bob :: user where
  "bob =
     \<lparr>uid = ''64b7f0c2a1d3e4f5a6b7c8d2'', name = ''Bob'', email = None,
      password = Some ''#hunter2'', phoneNumber = ''200'', panCard = ''BBBBB2222B'',
      gender = ''M'', avatar = ''defaultAvatar.png'', addresses = [],
      referralCode = ''BOB0'', referredBy = Some ''64b7f0c2a1d3e4f5a6b7c8d1''\<rparr>"

definition alice_code :: referral_doc where
  "alice_code =
     \<lparr>code = ''ALICE0'', userId = ''64b7f0c2a1d3e4f5a6b7c8d1'', userName = ''Alice'',
      usedBy = [(''64b7f0c2a1d3e4f5a6b7c8d2'', Some ''Bob'')]\<rparr>"

definition bob_code :: referral_doc where
  "bob_code =
     \<lparr>code = ''BOB0'', userId = ''64b7f0c2a1d3e4f5a6b7c8d2'', userName = ''Bob'', usedBy = []\<rparr>"

definition example_state :: state where
  "example_state =
     \<lparr>users = [alice, bob], referralCodes = [alice_code, bob_code],
      uploads = {''uploads/carol.png'', ''uploads/dave.png'', ''uploads/erin.png''}\<rparr>"

text \<open>A complete registration by Carol, with an uploaded file and no referral code.\<close>

definition carol_request :: create_user_req where
  "carol_request =
     \<lparr>body_name = Some ''Carol'', body_email = Some ''carol@example.com'',
      body_password = Some ''pw'', body_phoneNumber = Some ''300'',
      body_panCard = Some ''ccccc3333c'', body_gender = Some ''F'',
      body_inputReferralCode = None, req_file = Some ''carol.png''\<rparr>"

text \<open>Dave registers with a referral code that nobody owns.\<close>

definition dave_request :: create_user_req where
  "dave_request =
     \<lparr>body_name = Some ''Dave'', body_email = Some ''dave@example.com'',
      body_password = Some ''pw'', body_phoneNumber = Some ''400'',
      body_panCard = Some ''ddddd4444d'', body_gender = Some ''M'',
      body_inputReferralCode = Some ''NOPE'', req_file = Some ''dave.png''\<rparr>"

text \<open>Erin registers with Alice's PAN card in lower case, and a referral code that nobody
  owns.\<close>

definition erin_request :: create_user_req where
  "erin_request =
     \<lparr>body_name = Some ''Erin'', body_email = Some ''erin@example.com'',
      body_password = Some ''pw'', body_phoneNumber = Some ''500'',
      body_panCard = Some ''abcde1234f'', body_gender = Some ''F'',
      body_inputReferralCode = Some ''NOPE'', req_file = Some ''erin.png''\<rparr>"

text \<open>An address update of Alice, who has one address (Home): the body brings the id of
  that address and another address type.\<close>

definition work_body :: json_object where
  "work_body =
     [(''_id'', ''64b7f0c2a1d3e4f5a6b7c9a1''), (''addressType'', ''Work''), (''zip'', ''411001'')]"

section \<open>Properties\<close>

subsection \<open>Persistence primitives\<close>

lemma find_append_left:
  "find P xs = Some x \<Longrightarrow> find P (xs @ ys) = Some x"
  by (induction xs) (auto split: if_splits)

lemma users_discard_file: "users (discard_file f st) = users st"
  by (simp add: discard_file_def fs_unlink_def split: option.splits)

lemma findById_cast:
  "castObjectId t = Some j \<Longrightarrow> findById us (Some t) = Inr (find (\<lambda>u. uid u = j) us)"
  by (simp add: findById_def)

lemma findById_Some:
  "findById us (Some t) = Inr (Some x) \<Longrightarrow>
   castObjectId t = Some (uid x) \<and> find (\<lambda>u. uid u = uid x) us = Some x"
  by (auto simp: findById_def find_Some_iff split: option.splits)

lemma find_save:
  "find (\<lambda>x. uid x = j) (save u us) =
     (if j = uid u \<and> find (\<lambda>x. uid x = j) us \<noteq> None then Some u
      else find (\<lambda>x. uid x = j) us)"
  by (induction us) (auto simp: save_def)

lemma findById_save_same:
  "findById us (Some t) = Inr (Some x) \<Longrightarrow> uid y = uid x \<Longrightarrow>
   findById (save y us) (Some t) = Inr (Some y)"
  by (drule findById_Some) (simp add: findById_cast find_save)

lemma findById_append:
  "findById us i = Inr (Some x) \<Longrightarrow> findById (us @ vs) i = Inr (Some x)"
  by (auto simp: findById_def find_append_left split: option.splits)

lemma strict_equals_js_value:
  "strict_equals (js_value a) (js_value b) = (a = b)"
  by (cases a; cases b) (simp_all add: js_value_def)

lemma strict_equals_ObjectId:
  "strict_equals (JObjectId i) (js_value v) = False"
  by (cases v) (simp_all add: js_value_def)

lemma referralCodes_discard_file: "referralCodes (discard_file f st) = referralCodes st"
  by (simp add: discard_file_def fs_unlink_def split: option.splits)

subsection \<open>Registration and referral application keep a referrer once it is set\<close>

lemma create_user_users:
  "users (fst (create_user env newId st req)) = users st
   \<or> (\<exists>x. users (fst (create_user env newId st req)) = users st @ [x])"
  by (simp add: create_user_def Let_def users_discard_file split: sum.splits)

lemma serve_keeps_referredBy:
  assumes "findById (users st) (Some u) = Inr (Some usr)" and "referredBy usr = Some r"
  shows "\<exists>usr'. findById (users (serve env st rq)) (Some u) = Inr (Some usr')
               \<and> referredBy usr' = Some r"
proof (cases rq)
  case (CreateUser newId req)
  from create_user_users [of env newId st req] assms show ?thesis
    unfolding CreateUser by (auto simp: findById_append)
next
  case (ApplyReferral c t)
  show ?thesis
  proof (cases "users (fst (apply_referral env st c t)) = users st")
    case True
    with assms show ?thesis unfolding ApplyReferral by simp
  next
    case False
    then obtain rid target where t: "findById (users st) t = Inr (Some target)"
      and n: "referredBy target = None"
      and s: "users (fst (apply_referral env st c t)) =
              save (target\<lparr>referredBy := Some rid\<rparr>) (users st)"
      by (auto simp: apply_referral_def split: option.splits if_splits sum.splits)
    from t obtain tt where tt: "t = Some tt" by (cases t) (simp_all add: findById_def)
    from t tt have target: "find (\<lambda>x. uid x = uid target) (users st) = Some target"
      by (simp add: findById_Some)
    from assms(1) have usr: "castObjectId u = Some (uid usr)"
      "find (\<lambda>x. uid x = uid usr) (users st) = Some usr"
      by (simp_all add: findById_Some)
    from target usr(2) assms(2) n have "uid usr \<noteq> uid target" by auto
    with usr s show ?thesis unfolding ApplyReferral
      using assms(2) by (simp add: findById_cast find_save)
  qed
qed

lemma run_keeps_referredBy:
  "findById (users st) (Some u) = Inr (Some usr) \<Longrightarrow> referredBy usr = Some r \<Longrightarrow>
   \<exists>usr'. findById (users (run env st rs)) (Some u) = Inr (Some usr') \<and> referredBy usr' = Some r"
proof (induction rs arbitrary: st usr)
  case Nil
  then show ?case by simp
next
  case (Cons rq rs)
  from serve_keeps_referredBy [OF Cons.prems, of env rq]
  obtain usr' where "findById (users (serve env st rq)) (Some u) = Inr (Some usr')"
    and "referredBy usr' = Some r" by blast
  from Cons.IH [OF this] show ?case by simp
qed

lemma apply_referral_already_referred:
  assumes "findById (users st) (Some u) = Inr (Some usr)" and "referredBy usr = Some r"
  shows "\<exists>message. apply_referral env st c (Some u) = (st, ErrorHandler message (Some 400))"
  using assms by (simp add: apply_referral_def split: option.splits)

subsection \<open>The self-referral check on the text of the id\<close>

text \<open>
  When the supplied \<open>userId\<close> is, character for character, the text of the id of the
  code's owner, the request is answered with a 400 and the state is kept.
\<close>

lemma apply_referral_own_id_text:
  assumes "find (\<lambda>r. Some (code r) = referralCode') (referralCodes st) = Some referral"
    and "userId' = Some (userId referral)"
  shows "apply_referral env st referralCode' userId' =
           (st, ErrorHandler ''Cannot use your own referral code'' (Some 400))"
  using assms by (simp add: apply_referral_def)

subsection \<open>An address of a type the user has\<close>

text \<open>
  When the user has an address of the body's \<open>addressType\<close>, the update is rejected with
  an error (built without a status code) and nothing is stored.
\<close>

lemma update_user_addresses_same_type:
  assumes "findById (users st) (Some authId) = Inr (Some usr)"
    and "\<exists>a\<in>set (addresses usr). map_of (props a) ''addressType'' = map_of body ''addressType''"
  shows "update_user_addresses st newId authId body =
          (st, ErrorHandler (template (map_of body ''addressType'') @ '' address already exists'')
                 None)"
proof -
  from assms(2) have "find (\<lambda>a. strict_equals (js_value (map_of (props a) ''addressType''))
                         (js_value (map_of body ''addressType''))) (addresses usr) \<noteq> None"
    by (auto simp: find_None_iff strict_equals_js_value)
  with assms(1) show ?thesis by (simp add: update_user_addresses_def)
qed

subsection \<open>The duplicate PAN card branch of registration\<close>

text \<open>
  A registration that passes the required-field check and the referral check, and whose
  PAN card in upper case is stored already, is answered with a 400; the stores are kept
  and the uploaded file is removed. (The answer is that of the email check when the email
  is taken, and of the PAN card check otherwise.)
\<close>

lemma create_user_duplicate_pan:
  assumes "\<not> (falsy (body_name req) \<or> falsy (body_password req) \<or> falsy (body_phoneNumber req)
              \<or> falsy (body_panCard req) \<or> falsy (body_gender req))"
    and "falsy (body_inputReferralCode req)
         \<or> verifyReferralCode env (users st) (referralCodes st)
              (string_of (body_inputReferralCode req)) \<noteq> None"
    and "find (\<lambda>u. panCard u = toUpperCase (string_of (body_panCard req))) (users st) = Some usr"
  shows "\<exists>message. create_user env newId st req =
           (st\<lparr>uploads := (case req_file req of None \<Rightarrow> uploads st
                             | Some f \<Rightarrow> uploads st - {''uploads/'' @ f})\<rparr>,
            ErrorHandler message (Some 400))"
  using assms
  by (auto simp: create_user_def Let_def discard_file_def fs_unlink_def split: option.splits)

section \<open>The claims\<close>

subsection \<open>Referral attribution\<close>

text \<open>
  C1. Once a user's \<open>referredBy\<close> holds a referrer, an apply-referral request that
  targets the user fails with a 400 and leaves the whole state as it was, and after every
  sequence of registrations and apply-referral requests the user still holds the same
  referrer: the field is set to a non-null value at most once.
\<close>

theorem C1_referredBy_set_at_most_once:
  assumes "findById (users st) (Some u) = Inr (Some usr)" and "referredBy usr = Some r"
  shows "(\<exists>message. apply_referral env st referralCode' (Some u) =
                      (st, ErrorHandler message (Some 400)))
       \<and> (\<exists>usr'. findById (users (run env st rs)) (Some u) = Inr (Some usr')
                 \<and> referredBy usr' = Some r)"
  using assms apply_referral_already_referred [OF assms] run_keeps_referredBy [OF assms]
  by blast

theorem C1_referredBy_set_at_most_once_witness:
  "findById (users example_state) (Some ''64b7f0c2a1d3e4f5a6b7c8d2'') = Inr (Some bob)
   \<and> referredBy bob = Some ''64b7f0c2a1d3e4f5a6b7c8d1''
   \<and> (\<exists>message. apply_referral reference_collaborators example_state (Some ''ALICE0'') (Some ''64b7f0c2a1d3e4f5a6b7c8d2'') =
                   (example_state, ErrorHandler message (Some 400)))
   \<and> (\<exists>usr'. findById
                (users (run reference_collaborators example_state
                          [ApplyReferral (Some ''ALICE0'') (Some ''64b7f0c2a1d3e4f5a6b7c8d2''),
                           CreateUser ''64b7f0c2a1d3e4f5a6b7c8d3'' carol_request,
                           ApplyReferral (Some ''CAROL0000000'') (Some ''64b7f0c2a1d3e4f5a6b7c8d2'')]))
                (Some ''64b7f0c2a1d3e4f5a6b7c8d2'') = Inr (Some usr')
            \<and> referredBy usr' = Some ''64b7f0c2a1d3e4f5a6b7c8d1'')"
proof -
  have h1: "findById (users example_state) (Some ''64b7f0c2a1d3e4f5a6b7c8d2'') = Inr (Some bob)" by code_simp
  have h2: "referredBy bob = Some ''64b7f0c2a1d3e4f5a6b7c8d1''" by code_simp
  from C1_referredBy_set_at_most_once [OF h1 h2] h1 h2 show ?thesis by blast
qed

text \<open>
  C2. The specification says that an apply-referral request whose code is owned by the
  target user fails with a 400, sets no referrer and records no usage. The handler
  compares the text of the owner's id with the supplied text (line 453) and then looks
  the user up by the cast of the supplied text (line 458). Alice's id written in upper
  case is another text of the same id: the comparison lets it pass, the lookup finds
  Alice, and the handler makes Alice her own referrer, records the usage on her code and
  answers 200.
\<close>

theorem C2_own_code_applied_through_another_text_of_the_id:
  "find (\<lambda>r. Some (code r) = Some ''ALICE0'') (referralCodes example_state) = Some alice_code
   \<and> castObjectId ''64B7F0C2A1D3E4F5A6B7C8D1'' = Some (userId alice_code)
   \<and> findById (users example_state) (Some ''64B7F0C2A1D3E4F5A6B7C8D1'') = Inr (Some alice)
   \<and> snd (apply_referral reference_collaborators example_state (Some ''ALICE0'')
             (Some ''64B7F0C2A1D3E4F5A6B7C8D1''))
       = JsonMessage 200 ''Referral code applied successfully''
   \<and> users (fst (apply_referral reference_collaborators example_state (Some ''ALICE0'')
                    (Some ''64B7F0C2A1D3E4F5A6B7C8D1'')))
       = [alice\<lparr>referredBy := Some (uid alice)\<rparr>, bob]
   \<and> referralCodes (fst (apply_referral reference_collaborators example_state (Some ''ALICE0'')
                            (Some ''64B7F0C2A1D3E4F5A6B7C8D1'')))
       = [alice_code\<lparr>usedBy := usedBy alice_code @ [(''64B7F0C2A1D3E4F5A6B7C8D1'', None)]\<rparr>,
          bob_code]"
  by code_simp

subsection \<open>Registration\<close>

text \<open>
  C3. A registration that supplies a referral code which the verification utility does
  not resolve is answered with a 400; the specification adds that an uploaded file is deleted.
  The handler returns from this branch without the \<open>fs.unlink\<close> block that the
  required-field, email, PAN card and \<open>catch\<close> branches run: when the required
  fields are present the state, upload directory included, is exactly what it was.
  Dave's request is such a registration: his file is still there.
\<close>

theorem C3_invalid_referral_code_keeps_file:
  assumes "\<not> (falsy (body_name req) \<or> falsy (body_password req) \<or> falsy (body_phoneNumber req)
              \<or> falsy (body_panCard req) \<or> falsy (body_gender req))"
    and "\<not> falsy (body_inputReferralCode req)"
    and "verifyReferralCode env (users st) (referralCodes st)
           (string_of (body_inputReferralCode req)) = None"
  shows "create_user env newId st req = (st, ErrorHandler ''Invalid referral code!'' (Some 400))"
  using assms by (simp add: create_user_def)

theorem C3_invalid_referral_code_keeps_file_witness:
  "req_file dave_request = Some ''dave.png''
   \<and> verifyReferralCode reference_collaborators (users example_state) (referralCodes example_state)
        (string_of (body_inputReferralCode dave_request)) = None
   \<and> create_user reference_collaborators ''64b7f0c2a1d3e4f5a6b7c8d4'' example_state dave_request =
       (example_state, ErrorHandler ''Invalid referral code!'' (Some 400))
   \<and> ''uploads/dave.png'' \<in> uploads example_state"
proof -
  have h1: "\<not> (falsy (body_name dave_request) \<or> falsy (body_password dave_request)
               \<or> falsy (body_phoneNumber dave_request) \<or> falsy (body_panCard dave_request)
               \<or> falsy (body_gender dave_request))"
    by code_simp
  have h2: "\<not> falsy (body_inputReferralCode dave_request)" by code_simp
  have h3: "verifyReferralCode reference_collaborators (users example_state)
              (referralCodes example_state) (string_of (body_inputReferralCode dave_request)) = None"
    by code_simp
  have f: "req_file dave_request = Some ''dave.png''" by code_simp
  have u: "''uploads/dave.png'' \<in> uploads example_state" by code_simp
  from C3_invalid_referral_code_keeps_file [OF h1 h2 h3] h3 f u show ?thesis by blast
qed

text \<open>
  C4. The specification says that every registration whose PAN card, in upper case, is stored
  already is answered with a 400, creates no record, and has its uploaded file deleted.
  Erin's request has Alice's PAN card and a referral code that nobody owns: the handler
  answers 400 from the referral check, creates nothing, and leaves her file in place.
\<close>

theorem C4_duplicate_pan_with_invalid_referral_code:
  "find (\<lambda>u. panCard u = toUpperCase (string_of (body_panCard erin_request))) (users example_state)
     = Some alice
   \<and> req_file erin_request = Some ''erin.png''
   \<and> create_user reference_collaborators ''64b7f0c2a1d3e4f5a6b7c8d5'' example_state erin_request =
       (example_state, ErrorHandler ''Invalid referral code!'' (Some 400))
   \<and> ''uploads/erin.png'' \<in> uploads example_state"
  by code_simp

text \<open>
  C6. A registration in which any of name, password, phoneNumber, panCard or gender is
  absent (or the empty string) is answered with the 400 of the required-field check. The
  new state is the old one with the uploaded file, if there is one, removed from the
  upload directory: no User and no ReferralCode document is created.
\<close>

theorem C6_missing_required_field:
  assumes "falsy (body_name req) \<or> falsy (body_password req) \<or> falsy (body_phoneNumber req)
           \<or> falsy (body_panCard req) \<or> falsy (body_gender req)"
  shows "create_user env newId st req =
           (st\<lparr>uploads := (case req_file req of
                              None \<Rightarrow> uploads st
                            | Some filename \<Rightarrow> uploads st - {''uploads/'' @ filename})\<rparr>,
            ErrorHandler ''Please provide all required fields!'' (Some 400))"
  using assms
  by (auto simp: create_user_def falsy_def discard_file_def fs_unlink_def split: option.splits)

theorem C6_missing_required_field_witness:
  "falsy (body_gender (carol_request\<lparr>body_gender := None\<rparr>))
   \<and> create_user reference_collaborators ''64b7f0c2a1d3e4f5a6b7c8d3'' example_state (carol_request\<lparr>body_gender := None\<rparr>) =
       (example_state\<lparr>uploads := {''uploads/dave.png'', ''uploads/erin.png''}\<rparr>,
        ErrorHandler ''Please provide all required fields!'' (Some 400))"
proof -
  let ?req = "carol_request\<lparr>body_gender := None\<rparr>"
  have g: "falsy (body_gender ?req)"
    by (simp add: falsy_def)
  then have h: "falsy (body_name ?req) \<or> falsy (body_password ?req) \<or> falsy (body_phoneNumber ?req)
           \<or> falsy (body_panCard ?req) \<or> falsy (body_gender ?req)"
    by simp
  have u: "(case req_file ?req of None \<Rightarrow> uploads example_state
            | Some filename \<Rightarrow> uploads example_state - {''uploads/'' @ filename})
           = {''uploads/dave.png'', ''uploads/erin.png''}"
    by (auto simp: carol_request_def example_state_def)
  from C6_missing_required_field [OF h, of reference_collaborators "''64b7f0c2a1d3e4f5a6b7c8d3''" example_state] u g
  show ?thesis by simp
qed

subsection \<open>Address update\<close>

text \<open>
  C5. The specification says that an update whose \<open>_id\<close> is that of an existing address
  merges the body into that address and appends nothing. The handler looks the address up
  with \<open>address._id === req.body._id\<close> (line 294), an ObjectId against a string of the
  request, which is false for every address (line 453 compares such an id through
  \<open>toString()\<close>). So whenever the body brings a well-formed \<open>_id\<close> and no address has
  its type, the body is appended as a new address, also when an address with that id
  exists: Alice ends with two addresses of the same id.
\<close>

theorem C5_address_with_the_supplied_id_is_not_merged:
  assumes "findById (users st) (Some authId) = Inr (Some usr)"
    and "\<forall>a\<in>set (addresses usr). map_of (props a) ''addressType'' \<noteq> map_of body ''addressType''"
    and "map_of body ''_id'' = Some t"
    and "castObjectId t = Some i"
  shows "\<exists>usr'.
            usr' = usr\<lparr>addresses :=
                         addresses usr @ [\<lparr>addr_id = i, props = AList.delete ''_id'' body\<rparr>]\<rparr>
          \<and> update_user_addresses st newId authId body =
              (st\<lparr>users := save usr' (users st)\<rparr>, JsonUser 200 (Some usr'))
          \<and> findById (save usr' (users st)) (Some authId) = Inr (Some usr')"
proof -
  let ?usr = "usr\<lparr>addresses :=
                     addresses usr @ [\<lparr>addr_id = i, props = AList.delete ''_id'' body\<rparr>]\<rparr>"
  from assms(2) have ty: "find (\<lambda>a. strict_equals (js_value (map_of (props a) ''addressType''))
                         (js_value (map_of body ''addressType''))) (addresses usr) = None"
    by (auto simp: find_None_iff strict_equals_js_value)
  have ids: "find (\<lambda>a. strict_equals (JObjectId (addr_id a)) (js_value (map_of body ''_id'')))
               (addresses usr) = None"
    by (simp add: find_None_iff strict_equals_ObjectId)
  from assms(3,4) have "push_address newId body
                         = Inr \<lparr>addr_id = i, props = AList.delete ''_id'' body\<rparr>"
    by (simp add: push_address_def)
  with assms(1) ty ids have "update_user_addresses st newId authId body =
              (st\<lparr>users := save ?usr (users st)\<rparr>, JsonUser 200 (Some ?usr))"
    by (simp add: update_user_addresses_def Let_def)
  moreover have "findById (save ?usr (users st)) (Some authId) = Inr (Some ?usr)"
    using assms(1) by (rule findById_save_same) simp
  ultimately show ?thesis by blast
qed

theorem C5_address_with_the_supplied_id_is_not_merged_witness:
  "findById (users example_state) (Some ''64b7f0c2a1d3e4f5a6b7c8d1'') = Inr (Some alice)
   \<and> map_of work_body ''_id'' = Some ''64b7f0c2a1d3e4f5a6b7c9a1''
   \<and> castObjectId ''64b7f0c2a1d3e4f5a6b7c9a1'' = Some (addr_id (addresses alice ! 0))
   \<and> (\<exists>usr'.
          usr' = alice\<lparr>addresses :=
                         addresses alice @
                           [\<lparr>addr_id = ''64b7f0c2a1d3e4f5a6b7c9a1'',
                             props = AList.delete ''_id'' work_body\<rparr>]\<rparr>
        \<and> update_user_addresses example_state ''64b7f0c2a1d3e4f5a6b7c9a2''
              ''64b7f0c2a1d3e4f5a6b7c8d1'' work_body =
            (example_state\<lparr>users := save usr' (users example_state)\<rparr>, JsonUser 200 (Some usr'))
        \<and> findById (save usr' (users example_state)) (Some ''64b7f0c2a1d3e4f5a6b7c8d1'') =
            Inr (Some usr')
        \<and> length (addresses usr') = 2)"
proof -
  have h: "findById (users example_state) (Some ''64b7f0c2a1d3e4f5a6b7c8d1'') = Inr (Some alice)"
    by code_simp
  have ty: "\<forall>a\<in>set (addresses alice). map_of (props a) ''addressType'' \<noteq> map_of work_body ''addressType''"
    by (simp add: alice_def work_body_def)
  have b: "map_of work_body ''_id'' = Some ''64b7f0c2a1d3e4f5a6b7c9a1''"
    by code_simp
  have c: "castObjectId ''64b7f0c2a1d3e4f5a6b7c9a1'' = Some ''64b7f0c2a1d3e4f5a6b7c9a1''"
    by code_simp
  have a: "addr_id (addresses alice ! 0) = ''64b7f0c2a1d3e4f5a6b7c9a1''"
    and l: "length (addresses alice) = 1"
    by (simp_all add: alice_def)
  from C5_address_with_the_supplied_id_is_not_merged
         [OF h ty b c, of "''64b7f0c2a1d3e4f5a6b7c9a2''"] h b c a l
  show ?thesis by auto
qed

subsection \<open>Password change\<close>

text \<open>
  C7. A password change by an authenticated user (one whose document exists):
  \<^item> when the old password does not match the stored hash, the answer is a 400 and the
    state is unchanged;
  \<^item> when \<open>newPassword\<close> differs from \<open>confirmPassword\<close>, the answer is a 400 and the
    state is unchanged (nothing is saved);
  \<^item> when the old password matches and the two are equal, the user's document is saved
    with the new password as the persistence layer hashes it, and the answer is a 200.
\<close>

theorem C7_update_user_password:
  assumes "findById (users st) (Some authId) = Inr (Some usr)"
  shows
    "(\<not> comparePassword env usr oldPassword \<longrightarrow>
        update_user_password env st authId oldPassword newPassword confirmPassword =
          (st, ErrorHandler ''Old password is incorrect!'' (Some 400)))
     \<and> (newPassword \<noteq> confirmPassword \<longrightarrow>
        (\<exists>message.
           update_user_password env st authId oldPassword newPassword confirmPassword =
             (st, ErrorHandler message (Some 400))))
     \<and> (comparePassword env usr oldPassword \<longrightarrow> newPassword = confirmPassword \<longrightarrow>
        (\<exists>usr'.
            usr' = usr\<lparr>password := map_option (hashPassword env) newPassword\<rparr>
          \<and> update_user_password env st authId oldPassword newPassword confirmPassword =
              (st\<lparr>users := save usr' (users st)\<rparr>, JsonMessage 200 ''Password updated successfully!'')
          \<and> findById (save usr' (users st)) (Some authId) = Inr (Some usr')))"
proof (intro conjI impI)
  assume "\<not> comparePassword env usr oldPassword"
  with assms show "update_user_password env st authId oldPassword newPassword confirmPassword =
          (st, ErrorHandler ''Old password is incorrect!'' (Some 400))"
    by (simp add: update_user_password_def)
next
  assume "newPassword \<noteq> confirmPassword"
  with assms show "\<exists>message.
           update_user_password env st authId oldPassword newPassword confirmPassword =
             (st, ErrorHandler message (Some 400))"
    by (simp add: update_user_password_def)
next
  let ?usr = "usr\<lparr>password := map_option (hashPassword env) newPassword\<rparr>"
  assume "comparePassword env usr oldPassword" and "newPassword = confirmPassword"
  with assms have "update_user_password env st authId oldPassword newPassword confirmPassword =
              (st\<lparr>users := save ?usr (users st)\<rparr>, JsonMessage 200 ''Password updated successfully!'')"
    by (simp add: update_user_password_def)
  moreover have "findById (save ?usr (users st)) (Some authId) = Inr (Some ?usr)"
    using assms by (rule findById_save_same) simp
  ultimately show "\<exists>usr'.
            usr' = usr\<lparr>password := map_option (hashPassword env) newPassword\<rparr>
          \<and> update_user_password env st authId oldPassword newPassword confirmPassword =
              (st\<lparr>users := save usr' (users st)\<rparr>, JsonMessage 200 ''Password updated successfully!'')
          \<and> findById (save usr' (users st)) (Some authId) = Inr (Some usr')"
    by blast
qed

theorem C7_update_user_password_witness:
  "findById (users example_state) (Some ''64b7f0c2a1d3e4f5a6b7c8d1'') = Inr (Some alice)
   \<and> \<not> comparePassword reference_collaborators alice (Some ''guess'')
   \<and> update_user_password reference_collaborators example_state ''64b7f0c2a1d3e4f5a6b7c8d1'' (Some ''guess'')
         (Some ''new'') (Some ''new'') =
       (example_state, ErrorHandler ''Old password is incorrect!'' (Some 400))
   \<and> (\<exists>message.
         update_user_password reference_collaborators example_state ''64b7f0c2a1d3e4f5a6b7c8d1'' (Some ''secret'')
           (Some ''new'') (Some ''gnu'') =
         (example_state, ErrorHandler message (Some 400)))
   \<and> comparePassword reference_collaborators alice (Some ''secret'')
   \<and> (\<exists>usr'.
          usr' = alice\<lparr>password := map_option (hashPassword reference_collaborators) (Some ''new'')\<rparr>
        \<and> update_user_password reference_collaborators example_state ''64b7f0c2a1d3e4f5a6b7c8d1'' (Some ''secret'')
              (Some ''new'') (Some ''new'') =
            (example_state\<lparr>users := save usr' (users example_state)\<rparr>,
             JsonMessage 200 ''Password updated successfully!'')
        \<and> findById (save usr' (users example_state)) (Some ''64b7f0c2a1d3e4f5a6b7c8d1'') = Inr (Some usr'))"
proof -
  have h: "findById (users example_state) (Some ''64b7f0c2a1d3e4f5a6b7c8d1'') = Inr (Some alice)" by code_simp
  have bad: "\<not> comparePassword reference_collaborators alice (Some ''guess'')" by code_simp
  have good: "comparePassword reference_collaborators alice (Some ''secret'')" by code_simp
  have diff: "Some ''new'' \<noteq> Some ''gnu''" by simp
  from C7_update_user_password [OF h, of reference_collaborators "Some ''guess''" "Some ''new''" "Some ''new''"] bad
  have p1: "update_user_password reference_collaborators example_state ''64b7f0c2a1d3e4f5a6b7c8d1'' (Some ''guess'')
         (Some ''new'') (Some ''new'') =
       (example_state, ErrorHandler ''Old password is incorrect!'' (Some 400))"
    by blast
  from C7_update_user_password [OF h, of reference_collaborators "Some ''secret''" "Some ''new''" "Some ''gnu''"] diff
  have p2: "\<exists>message.
         update_user_password reference_collaborators example_state ''64b7f0c2a1d3e4f5a6b7c8d1'' (Some ''secret'')
           (Some ''new'') (Some ''gnu'') =
         (example_state, ErrorHandler message (Some 400))"
    by blast
  from C7_update_user_password [OF h, of reference_collaborators "Some ''secret''" "Some ''new''" "Some ''new''"] good
  have p3: "\<exists>usr'.
          usr' = alice\<lparr>password := map_option (hashPassword reference_collaborators) (Some ''new'')\<rparr>
        \<and> update_user_password reference_collaborators example_state ''64b7f0c2a1d3e4f5a6b7c8d1'' (Some ''secret'')
              (Some ''new'') (Some ''new'') =
            (example_state\<lparr>users := save usr' (users example_state)\<rparr>,
             JsonMessage 200 ''Password updated successfully!'')
        \<and> findById (save usr' (users example_state)) (Some ''64b7f0c2a1d3e4f5a6b7c8d1'') = Inr (Some usr')"
    by blast
  from h bad good p1 p2 p3 show ?thesis by blast
qed

subsection \<open>Login\<close>

text \<open>
  C8. A login request:
  \<^item> when no user has the supplied email, the answer is a 400;
  \<^item> when a user has it and the password does not match the stored hash, the answer is
    a 400 (an error response carries no token);
  \<^item> when the credentials match (an email and a password are supplied, a user has the
    email and the password matches), the answer is the token issued for that user, with
    status 201.
  The state is unchanged in every case.
\<close>

theorem C8_login_user:
  "(find (\<lambda>u. email u = email') (users st) = None \<longrightarrow>
      (\<exists>message. login_user env st email' password' = (st, ErrorHandler message (Some 400))))
   \<and> (\<forall>usr. find (\<lambda>u. email u = email') (users st) = Some usr
            \<and> \<not> comparePassword env usr password' \<longrightarrow>
      (\<exists>message. login_user env st email' password' = (st, ErrorHandler message (Some 400))))
   \<and> (\<forall>usr. \<not> falsy email' \<and> \<not> falsy password'
            \<and> find (\<lambda>u. email u = email') (users st) = Some usr
            \<and> comparePassword env usr password' \<longrightarrow>
      login_user env st email' password' = (st, SendToken usr 201 (getJwtToken env usr) None))"
  by (auto simp: login_user_def split: option.splits)

theorem C8_login_user_witness:
  "find (\<lambda>u. email u = Some ''nobody@example.com'') (users example_state) = None
   \<and> (\<exists>message. login_user reference_collaborators example_state (Some ''nobody@example.com'')
                   (Some ''secret'') = (example_state, ErrorHandler message (Some 400)))
   \<and> find (\<lambda>u. email u = Some ''alice@example.com'') (users example_state) = Some alice
   \<and> \<not> comparePassword reference_collaborators alice (Some ''guess'')
   \<and> (\<exists>message. login_user reference_collaborators example_state (Some ''alice@example.com'')
                   (Some ''guess'') = (example_state, ErrorHandler message (Some 400)))
   \<and> comparePassword reference_collaborators alice (Some ''secret'')
   \<and> login_user reference_collaborators example_state (Some ''alice@example.com'') (Some ''secret'') =
       (example_state, SendToken alice 201 (getJwtToken reference_collaborators alice) None)"
proof -
  have none: "find (\<lambda>u. email u = Some ''nobody@example.com'') (users example_state) = None"
    by code_simp
  have some: "find (\<lambda>u. email u = Some ''alice@example.com'') (users example_state) = Some alice"
    by code_simp
  have bad: "\<not> comparePassword reference_collaborators alice (Some ''guess'')" by code_simp
  have good: "comparePassword reference_collaborators alice (Some ''secret'')" by code_simp
  have t: "\<not> falsy (Some ''alice@example.com'')" "\<not> falsy (Some ''secret'')"
    by (simp_all add: falsy_def)
  from C8_login_user [of "Some ''nobody@example.com''" example_state reference_collaborators "Some ''secret''"] none
  have p1: "\<exists>message. login_user reference_collaborators example_state (Some ''nobody@example.com'')
                   (Some ''secret'') = (example_state, ErrorHandler message (Some 400))"
    by blast
  from C8_login_user [of "Some ''alice@example.com''" example_state reference_collaborators "Some ''guess''"] some bad
  have p2: "\<exists>message. login_user reference_collaborators example_state (Some ''alice@example.com'')
                   (Some ''guess'') = (example_state, ErrorHandler message (Some 400))"
    by blast
  from C8_login_user [of "Some ''alice@example.com''" example_state reference_collaborators "Some ''secret''"] some good t
  have p3: "login_user reference_collaborators example_state (Some ''alice@example.com'') (Some ''secret'') =
       (example_state, SendToken alice 201 (getJwtToken reference_collaborators alice) None)"
    by blast
  from none some bad good p1 p2 p3 show ?thesis by blast
qed

subsection \<open>Public user lookup\<close>

text \<open>
  C9. A lookup whose id is a well-formed ObjectId text that no user has is not an error:
  the answer has status 201 and the body \<open>{success: true, user: null}\<close>. A lookup whose
  id is no ObjectId text resolves to no user either, and is answered by the \<open>catch\<close>
  block with a 500 (the counterexample below: the id \<open>not-an-id\<close>).
\<close>

theorem C9_user_info_of_unknown_id:
  "(\<forall>j. castObjectId i = Some j \<and> find (\<lambda>u. uid u = j) (users st) = None \<longrightarrow>
        user_info st i = (st, JsonUser 201 None))
   \<and> (castObjectId i = None \<longrightarrow>
        user_info st i = (st, ErrorHandler (CastError i) (Some 500)))"
  by (simp add: user_info_def findById_def)

theorem C9_user_info_of_unknown_id_witness:
  "castObjectId ''64b7f0c2a1d3e4f5a6b7c8ff'' = Some ''64b7f0c2a1d3e4f5a6b7c8ff''
   \<and> find (\<lambda>u. uid u = ''64b7f0c2a1d3e4f5a6b7c8ff'') (users example_state) = None
   \<and> user_info example_state ''64b7f0c2a1d3e4f5a6b7c8ff'' = (example_state, JsonUser 201 None)
   \<and> castObjectId ''not-an-id'' = None
   \<and> user_info example_state ''not-an-id'' =
       (example_state, ErrorHandler (CastError ''not-an-id'') (Some 500))"
proof -
  have c: "castObjectId ''64b7f0c2a1d3e4f5a6b7c8ff'' = Some ''64b7f0c2a1d3e4f5a6b7c8ff''"
    by code_simp
  have n: "find (\<lambda>u. uid u = ''64b7f0c2a1d3e4f5a6b7c8ff'') (users example_state) = None"
    by code_simp
  have m: "castObjectId ''not-an-id'' = None" by code_simp
  from C9_user_info_of_unknown_id [of "''64b7f0c2a1d3e4f5a6b7c8ff''" example_state] c n
  have p1: "user_info example_state ''64b7f0c2a1d3e4f5a6b7c8ff'' = (example_state, JsonUser 201 None)"
    by blast
  from C9_user_info_of_unknown_id [of "''not-an-id''" example_state] m
  have p2: "user_info example_state ''not-an-id'' =
       (example_state, ErrorHandler (CastError ''not-an-id'') (Some 500))"
    by blast
  from c n m p1 p2 show ?thesis by blast
qed

theorem C9_malformed_id_counterexample:
  "find (\<lambda>u. uid u = ''not-an-id'') (users example_state) = None
   \<and> findById (users example_state) (Some ''not-an-id'')
       = Inl ''Cast to ObjectId failed for value not-an-id''
   \<and> user_info example_state ''not-an-id''
       = (example_state, ErrorHandler ''Cast to ObjectId failed for value not-an-id'' (Some 500))
   \<and> user_info example_state ''not-an-id'' \<noteq> (example_state, JsonUser 201 None)"
  by code_simp

end
